theory Spec2Isabelle
  imports Main
begin

section \<open>Strings, time and the process clock\<close>

text \<open>
  Go strings are byte sequences and are modelled as \<^typ>\<open>string\<close>.  The three functions
  of package \<^verbatim>\<open>strings\<close> that the token subsystem calls are written out as
  recursive functions.
\<close>

fun strings_HasPrefix :: "string \<Rightarrow> string \<Rightarrow> bool" where
  "strings_HasPrefix s [] = True"
| "strings_HasPrefix [] (p # ps) = False"
| "strings_HasPrefix (c # s) (p # ps) = (c = p \<and> strings_HasPrefix s ps)"

fun strings_Contains :: "string \<Rightarrow> string \<Rightarrow> bool" where
  "strings_Contains [] substr = (substr = [])"
| "strings_Contains (c # s) substr =
     (strings_HasPrefix (c # s) substr \<or> strings_Contains s substr)"

definition apostrophe :: string where
  "apostrophe = [CHR 0x27]"

fun strings_Join :: "string list \<Rightarrow> string \<Rightarrow> string" where
  "strings_Join [] sep = []"
| "strings_Join [a] sep = a"
| "strings_Join (a # b # bs) sep = a @ sep @ strings_Join (b # bs) sep"

text \<open>
  A \<^verbatim>\<open>time.Time\<close> is an instant, counted in nanoseconds since the Unix epoch, and a
  \<^verbatim>\<open>time.Duration\<close> is a number of nanoseconds.  Both are unbounded integers here:
  the 64-bit range of the Go types is not reached by any value below.
\<close>

type_synonym Time = int
type_synonym Duration = int

definition Second :: Duration where
  "Second = 1000000000"

definition Minute :: Duration where
  "Minute = 60 * Second"

definition Before :: "Time \<Rightarrow> Time \<Rightarrow> bool" where
  "Before t u = (t < u)"

definition Unix :: "Time \<Rightarrow> int" where
  "Unix t = t div Second"

definition time_Unix :: "int \<Rightarrow> Time" where
  "time_Unix sec = sec * Second"

definition Truncate :: "Time \<Rightarrow> Duration \<Rightarrow> Time" where
  "Truncate t d = (if d \<le> 0 then t else t - t mod d)"

text \<open>
  \<^verbatim>\<open>time.Now()\<close> reads the process clock.  The clock is the sequence of readings that
  successive calls return; a call takes the first reading and leaves the rest.  A clock
  is monotonic when no reading is earlier than the one before it.
\<close>

type_synonym clock = "nat \<Rightarrow> Time"

definition time_Now :: "clock \<Rightarrow> Time \<times> clock" where
  "time_Now c = (c 0, \<lambda>i. c (Suc i))"

definition monotonic :: "clock \<Rightarrow> bool" where
  "monotonic c = (\<forall>i. c i \<le> c (Suc i))"

section \<open>The revocation ledger (package token)\<close>

record BlacklistEntry =
  JTI :: string
  ExpiresAt :: Time
  RevokedAt :: Time

text \<open>
  \<^verbatim>\<open>MemoryBlacklist\<close> holds a Go map from JTI to entry; the mutex that guards it has
  no effect on a single caller and is left out.
\<close>

record MemoryBlacklist =
  entries :: "string \<rightharpoonup> BlacklistEntry"

definition NewMemoryBlacklist :: MemoryBlacklist where
  "NewMemoryBlacklist = \<lparr>entries = Map.empty\<rparr>"

definition Add :: "string \<Rightarrow> Time \<Rightarrow> MemoryBlacklist \<Rightarrow> clock \<Rightarrow> MemoryBlacklist \<times> clock" where
  "Add jti expiresAt b c =
     (let (now, c') = time_Now c
      in (b\<lparr>entries := (entries b)(jti \<mapsto>
              \<lparr>JTI = jti, BlacklistEntry.ExpiresAt = expiresAt, RevokedAt = now\<rparr>)\<rparr>, c'))"

definition IsBlacklisted :: "string \<Rightarrow> MemoryBlacklist \<Rightarrow> bool" where
  "IsBlacklisted jti b = (entries b jti \<noteq> None)"

text \<open>
  \<^verbatim>\<open>Cleanup\<close> ranges over the map while deleting from it.  Go fixes no iteration
  order, so the order \<open>ks\<close> in which the keys come up is an argument of the loop.
\<close>

fun Cleanup_loop ::
  "Time \<Rightarrow> string list \<Rightarrow> (string \<rightharpoonup> BlacklistEntry) \<times> int \<Rightarrow> (string \<rightharpoonup> BlacklistEntry) \<times> int"
where
  "Cleanup_loop now [] (es, removed) = (es, removed)"
| "Cleanup_loop now (jti # ks) (es, removed) =
     (case es jti of
        None \<Rightarrow> Cleanup_loop now ks (es, removed)
      | Some entry \<Rightarrow>
          if Before (BlacklistEntry.ExpiresAt entry) now
          then Cleanup_loop now ks (es(jti := None), removed + 1)
          else Cleanup_loop now ks (es, removed))"

definition Cleanup :: "string list \<Rightarrow> MemoryBlacklist \<Rightarrow> clock \<Rightarrow> (int \<times> MemoryBlacklist) \<times> clock" where
  "Cleanup ks b c =
     (let (now, c') = time_Now c;
          (es, removed) = Cleanup_loop now ks (entries b, 0)
      in ((removed, b\<lparr>entries := es\<rparr>), c'))"

section \<open>The scope string of an introspection response\<close>

fun append_roles :: "string list \<Rightarrow> string list \<Rightarrow> string list" where
  "append_roles scopes [] = scopes"
| "append_roles scopes (role # roles) =
     append_roles (if role \<noteq> [] then scopes @ [''role:'' @ role] else scopes) roles"

fun append_permissions :: "string list \<Rightarrow> string list \<Rightarrow> string list" where
  "append_permissions scopes [] = scopes"
| "append_permissions scopes (permission # permissions) =
     append_permissions (if permission \<noteq> [] then scopes @ [permission] else scopes) permissions"

definition buildScopeString :: "string list \<Rightarrow> string list \<Rightarrow> string" where
  "buildScopeString roles permissions =
     strings_Join (append_permissions (append_roles [] roles) permissions) '' ''"

text \<open>
  The scope as the interface description words it: every role prefixed with \<^verbatim>\<open>role:\<close>,
  then every permission, joined by single spaces.
\<close>

definition scope_as_described :: "string list \<Rightarrow> string list \<Rightarrow> string" where
  "scope_as_described roles permissions =
     strings_Join (map (\<lambda>role. ''role:'' @ role) roles @ permissions) '' ''"

section \<open>Token codec (package jwt)\<close>

text \<open>
  The process-wide variables: the signing secret and the access-token lifetime, both
  fixed at start-up, the global ledger (\<open>None\<close> is the nil interface value of a
  process that never called \<^verbatim>\<open>InitializeBlacklist\<close>), and the clock.
\<close>

record world =
  JWT_SECRET :: string
  TOKEN_EXPIRATION :: Duration
  GlobalBlacklist :: "MemoryBlacklist option"
  clock :: clock

definition REFRESH_TOKEN_EXTRA_TIME :: Duration where
  "REFRESH_TOKEN_EXTRA_TIME = 1 * Minute"

text \<open>
  A \<^verbatim>\<open>uuid.UUID\<close> is represented by its canonical text, which is what
  \<^verbatim>\<open>String()\<close> returns.
\<close>

datatype UUID = UUID string

fun uuid_String :: "UUID \<Rightarrow> string" where
  "uuid_String (UUID s) = s"

text \<open>
  \<^verbatim>\<open>TokenClaims\<close> with the embedded \<^verbatim>\<open>jwt.RegisteredClaims\<close> flattened.  The three
  dates are pointers in Go and may be nil; \<open>ID\<close> is the \<^verbatim>\<open>jti\<close> claim.  The registered
  \<^verbatim>\<open>sub\<close> and \<^verbatim>\<open>aud\<close> claims are never read or written and are left out.
\<close>

record TokenClaims =
  UserId :: string
  Subject :: string
  Roles :: "string list"
  Permissions :: "string list"
  TokenType :: string
  Issuer :: string
  ExpiresAt :: "Time option"
  NotBefore :: "Time option"
  IssuedAt :: "Time option"
  ID :: string

subsection \<open>The library \<^verbatim>\<open>golang-jwt/jwt/v5\<close>, symbolically\<close>

text \<open>
  The codec is a third-party library.  Its signatures are treated symbolically: a token
  string is represented by what the library's parser makes of it.  \<open>Unparsable msg\<close> is
  a string that the library rejects as not well formed, with the error text \<open>msg\<close>
  (a wrong number of segments, a segment that does not decode);
  \<open>Signed m k claims\<close> is a three-segment token whose header names the signing method
  \<open>m\<close>, whose payload decodes to \<open>claims\<close>, and whose signature segment is the one that
  verifies under the key \<open>k\<close> and under no other key.
\<close>

datatype SigningMethod = SigningMethodHMAC | SigningMethodRSA | SigningMethodNone

datatype token_string = Unparsable string | Signed SigningMethod string TokenClaims

definition jwt_NewNumericDate :: "Time \<Rightarrow> Time option" where
  "jwt_NewNumericDate t = Some (Truncate t Second)"

text \<open>
  \<^verbatim>\<open>NewWithClaims(SigningMethodHS256, claims).SignedString(key)\<close> with a byte-slice
  key: the library serialises the claims and appends the MAC under \<open>key\<close>.  No step of
  it fails for such a key; the error result is kept because the callers test it.
\<close>

definition jwt_SignedString :: "TokenClaims \<Rightarrow> string \<Rightarrow> string + token_string" where
  "jwt_SignedString claims key = Inr (Signed SigningMethodHMAC key claims)"

definition verifyExpiresAt :: "TokenClaims \<Rightarrow> Time \<Rightarrow> string list" where
  "verifyExpiresAt claims now =
     (case TokenClaims.ExpiresAt claims of
        None \<Rightarrow> []
      | Some exp \<Rightarrow> if Before now exp then [] else [''token is expired''])"

definition verifyNotBefore :: "TokenClaims \<Rightarrow> Time \<Rightarrow> string list" where
  "verifyNotBefore claims now =
     (case NotBefore claims of
        None \<Rightarrow> []
      | Some nbf \<Rightarrow> if \<not> Before now nbf then [] else [''token is not valid yet''])"

text \<open>
  \<^verbatim>\<open>ParseWithClaims\<close>: parse, ask the key function for the key, verify the signature,
  then validate the claims against the clock (expiry and not-before; the texts of the
  checks that fail are joined).  The result on success is the pair of the token's
  \<^verbatim>\<open>Valid\<close> flag and the claims.  The error texts are those of version 5 of the
  library.
\<close>

definition jwt_ParseWithClaims ::
  "token_string \<Rightarrow> (SigningMethod \<Rightarrow> string + string) \<Rightarrow> clock \<Rightarrow> (string + bool \<times> TokenClaims) \<times> clock"
where
  "jwt_ParseWithClaims tokenString keyFunc c =
     (case tokenString of
        Unparsable msg \<Rightarrow> (Inl msg, c)
      | Signed method k claims \<Rightarrow>
          (case keyFunc method of
             Inl err \<Rightarrow> (Inl (''token is unverifiable: error while executing keyfunc: '' @ err), c)
           | Inr key \<Rightarrow>
               if k \<noteq> key then (Inl ''token signature is invalid: signature is invalid'', c)
               else
                 (let (now, c') = time_Now c;
                      errs = verifyExpiresAt claims now @ verifyNotBefore claims now
                  in if errs = [] then (Inr (True, claims), c')
                     else (Inl (''token has invalid claims: '' @ strings_Join errs '', ''), c'))))"

definition jwt_ParseUnverified :: "token_string \<Rightarrow> TokenClaims option" where
  "jwt_ParseUnverified tokenString =
     (case tokenString of Unparsable msg \<Rightarrow> None | Signed method k claims \<Rightarrow> Some claims)"

subsection \<open>Issuing and decoding\<close>

record TokenOutput =
  Token :: token_string
  ExpiresAt :: Time

record TokenPair =
  AccessToken :: token_string
  RefreshToken :: token_string
  ExpiresAt :: Time
  RefreshExpiresAt :: Time

definition generateTokenWithType ::
  "world \<Rightarrow> UUID \<Rightarrow> string \<Rightarrow> string list \<Rightarrow> string list \<Rightarrow> string \<Rightarrow> Duration
     \<Rightarrow> (string + TokenOutput) \<times> world"
where
  "generateTokenWithType w userId subject roles permissions tokenType expiration =
     (let (t1, c1) = time_Now (clock w);
          expirationTime = t1 + expiration;
          (t2, c2) = time_Now c1;
          claims = \<lparr>UserId = uuid_String userId, Subject = subject, Roles = roles,
                    Permissions = permissions, TokenType = tokenType, Issuer = ''aegis'',
                    TokenClaims.ExpiresAt = jwt_NewNumericDate expirationTime,
                    NotBefore = None, IssuedAt = jwt_NewNumericDate t2, ID = []\<rparr>;
          w' = w\<lparr>clock := c2\<rparr>
      in case jwt_SignedString claims (JWT_SECRET w) of
           Inl err \<Rightarrow> (Inl err, w')
         | Inr tokenString \<Rightarrow>
             (Inr \<lparr>Token = tokenString, TokenOutput.ExpiresAt = expirationTime\<rparr>, w'))"

definition GenerateTokenPair ::
  "world \<Rightarrow> UUID \<Rightarrow> string \<Rightarrow> string list \<Rightarrow> string list \<Rightarrow> (string + TokenPair) \<times> world"
where
  "GenerateTokenPair w userId subject roles permissions =
     (let (t1, c1) = time_Now (clock w);
          accessExpiration = t1 + TOKEN_EXPIRATION w;
          (t2, c2) = time_Now c1;
          refreshExpiration = t2 + (TOKEN_EXPIRATION w + REFRESH_TOKEN_EXTRA_TIME);
          (r1, w1) = generateTokenWithType (w\<lparr>clock := c2\<rparr>) userId subject roles permissions
                       ''access'' (TOKEN_EXPIRATION w)
      in case r1 of
           Inl err \<Rightarrow> (Inl err, w1)
         | Inr accessToken \<Rightarrow>
             (let (r2, w2) = generateTokenWithType w1 userId subject roles permissions
                               ''refresh'' (TOKEN_EXPIRATION w1 + REFRESH_TOKEN_EXTRA_TIME)
              in case r2 of
                   Inl err \<Rightarrow> (Inl err, w2)
                 | Inr refreshToken \<Rightarrow>
                     (Inr \<lparr>AccessToken = Token accessToken, RefreshToken = Token refreshToken,
                           TokenPair.ExpiresAt = accessExpiration,
                           RefreshExpiresAt = refreshExpiration\<rparr>, w2)))"

definition keyFunc :: "world \<Rightarrow> SigningMethod \<Rightarrow> string + string" where
  "keyFunc w method =
     (if method \<noteq> SigningMethodHMAC then Inl ''unexpected signing method''
      else Inr (JWT_SECRET w))"

definition jwt_ValidateToken :: "world \<Rightarrow> token_string \<Rightarrow> (string + TokenClaims) \<times> world" where
  "jwt_ValidateToken w tokenString =
     (case jwt_ParseWithClaims tokenString (keyFunc w) (clock w) of
        (Inl err, c) \<Rightarrow> (Inl err, w\<lparr>clock := c\<rparr>)
      | (Inr (valid, claims), c) \<Rightarrow>
          if \<not> valid then (Inl ''invalid token'', w\<lparr>clock := c\<rparr>)
          else (Inr claims, w\<lparr>clock := c\<rparr>))"

definition jwt_ValidateRefreshToken :: "world \<Rightarrow> token_string \<Rightarrow> (string + TokenClaims) \<times> world" where
  "jwt_ValidateRefreshToken w tokenString =
     (case jwt_ValidateToken w tokenString of
        (Inl err, w') \<Rightarrow> (Inl err, w')
      | (Inr claims, w') \<Rightarrow>
          if TokenType claims \<noteq> ''refresh'' then (Inl ''token is not a refresh token'', w')
          else (Inr claims, w'))"

section \<open>HTTP handlers (packages auth and user)\<close>

text \<open>
  A request body as \<^verbatim>\<open>ShouldBindJSON\<close> sees it: either text that the JSON decoder
  rejects (with the decoder's message), or an object.  The token field of an object is
  \<open>None\<close> when it is absent or the empty string, the two cases in which the
  \<^verbatim>\<open>binding:"required"\<close> tag rejects it.  The second field is \<^verbatim>\<open>token_type_hint\<close>.
\<close>

datatype request = Undecodable string | JSONBody "token_string option" string

fun ShouldBindJSON :: "string \<Rightarrow> string \<Rightarrow> request \<Rightarrow> string + token_string \<times> string" where
  "ShouldBindJSON struct field (Undecodable msg) = Inl msg"
| "ShouldBindJSON struct field (JSONBody None hint) =
     Inl (''Key: '' @ apostrophe @ struct @ ''.'' @ field @ apostrophe
          @ '' Error:Field validation for '' @ apostrophe @ field @ apostrophe
          @ '' failed on the 'required' tag'')"
| "ShouldBindJSON struct field (JSONBody (Some token) hint) = Inr (token, hint)"

record UserInfo =
  ID :: string
  Subject :: string
  Roles :: "string list"
  Permissions :: "string list"

record ValidateTokenResponse =
  Valid :: bool
  User :: "UserInfo option"
  ExpiresAt :: "Time option"
  Error :: string

record IntrospectTokenResponse =
  Active :: bool
  Scope :: string
  ClientId :: string
  Username :: string
  TokenType :: string
  Exp :: int
  Iat :: int
  Sub :: string
  Iss :: string
  Roles :: "string list"
  Permissions :: "string list"

record RevokeTokenResponse =
  Success :: bool
  Message :: string

text \<open>
  The user store behind \<^verbatim>\<open>GetUserById\<close> is a table from identifier to user; of a
  user, the identity, roles and permissions are kept (the audit columns play no part).
\<close>

record User =
  Id :: UUID
  Subject :: string
  Roles :: "string list"
  Permissions :: "string list"

type_synonym user_store = "UUID \<rightharpoonup> User"

definition GetUserById :: "user_store \<Rightarrow> UUID \<Rightarrow> User option" where
  "GetUserById store userId = store userId"

record UserResponse =
  Id :: string
  Subject :: string
  Roles :: "string list"
  Permissions :: "string list"

definition toUserResponse :: "User \<Rightarrow> UserResponse" where
  "toUserResponse user =
     \<lparr>UserResponse.Id = uuid_String (User.Id user), UserResponse.Subject = User.Subject user,
      UserResponse.Roles = User.Roles user, UserResponse.Permissions = User.Permissions user\<rparr>"

record LoginResponse =
  User :: UserResponse
  AccessToken :: token_string
  RefreshToken :: token_string
  ExpiresAt :: Time
  RefreshExpiresAt :: Time

text \<open>
  What a handler does with its context: it writes a status and a JSON body, or it
  panics (a nil \<^verbatim>\<open>*NumericDate\<close> is dereferenced).
\<close>

datatype body =
    H_error string
  | ValidateBody ValidateTokenResponse
  | IntrospectBody IntrospectTokenResponse
  | RevokeBody RevokeTokenResponse
  | LoginBody LoginResponse

datatype outcome = Response nat body | Panic

definition StatusOK :: nat where "StatusOK = 200"
definition StatusBadRequest :: nat where "StatusBadRequest = 400"
definition StatusUnauthorized :: nat where "StatusUnauthorized = 401"
definition StatusInternalServerError :: nat where "StatusInternalServerError = 500"

definition determineValidationError :: "string \<Rightarrow> string" where
  "determineValidationError errMsg =
     (if strings_Contains errMsg ''expired'' then ''token expired''
      else if strings_Contains errMsg ''signature'' then ''invalid signature''
      else if strings_Contains errMsg ''malformed'' then ''malformed token''
      else if strings_Contains errMsg ''unexpected signing method'' then ''invalid signing method''
      else ''invalid token'')"

definition blacklisted :: "world \<Rightarrow> string \<Rightarrow> bool" where
  "blacklisted w jti =
     (case GlobalBlacklist w of None \<Rightarrow> False | Some bl \<Rightarrow> IsBlacklisted jti bl)"

definition ValidateToken :: "world \<Rightarrow> request \<Rightarrow> outcome \<times> world" where
  "ValidateToken w req =
     (case ShouldBindJSON ''ValidateTokenRequest'' ''Token'' req of
        Inl err \<Rightarrow> (Response StatusBadRequest (H_error err), w)
      | Inr (token, hint) \<Rightarrow>
          (case jwt_ValidateToken w token of
             (Inl err, w') \<Rightarrow>
               (Response StatusOK (ValidateBody
                  \<lparr>Valid = False, User = None, ValidateTokenResponse.ExpiresAt = None,
                   Error = determineValidationError err\<rparr>), w')
           | (Inr claims, w') \<Rightarrow>
               if blacklisted w' (TokenClaims.ID claims)
               then (Response StatusOK (ValidateBody
                       \<lparr>Valid = False, User = None, ValidateTokenResponse.ExpiresAt = None,
                        Error = ''token revoked''\<rparr>), w')
               else
                 (case TokenClaims.ExpiresAt claims of
                    None \<Rightarrow> (Panic, w')
                  | Some expiresAt \<Rightarrow>
                      (Response StatusOK (ValidateBody
                         \<lparr>Valid = True,
                          User = Some \<lparr>UserInfo.ID = UserId claims,
                                       UserInfo.Subject = TokenClaims.Subject claims,
                                       UserInfo.Roles = TokenClaims.Roles claims,
                                       UserInfo.Permissions = TokenClaims.Permissions claims\<rparr>,
                          ValidateTokenResponse.ExpiresAt = Some expiresAt,
                          Error = []\<rparr>), w'))))"

definition inactive :: IntrospectTokenResponse where
  "inactive = \<lparr>Active = False, Scope = [], ClientId = [], Username = [],
               IntrospectTokenResponse.TokenType = [], Exp = 0, Iat = 0, Sub = [], Iss = [],
               IntrospectTokenResponse.Roles = [], IntrospectTokenResponse.Permissions = []\<rparr>"

definition IntrospectToken :: "world \<Rightarrow> request \<Rightarrow> outcome \<times> world" where
  "IntrospectToken w req =
     (case ShouldBindJSON ''IntrospectTokenRequest'' ''Token'' req of
        Inl err \<Rightarrow> (Response StatusBadRequest (H_error err), w)
      | Inr (token, hint) \<Rightarrow>
          (case jwt_ValidateToken w token of
             (Inl err, w') \<Rightarrow> (Response StatusOK (IntrospectBody inactive), w')
           | (Inr claims, w') \<Rightarrow>
               if blacklisted w' (TokenClaims.ID claims)
               then (Response StatusOK (IntrospectBody inactive), w')
               else
                 (let scope = buildScopeString (TokenClaims.Roles claims)
                                (TokenClaims.Permissions claims)
                  in case TokenClaims.ExpiresAt claims of
                       None \<Rightarrow> (Panic, w')
                     | Some exp \<Rightarrow>
                         (case IssuedAt claims of
                            None \<Rightarrow> (Panic, w')
                          | Some iat \<Rightarrow>
                              (Response StatusOK (IntrospectBody
                                 \<lparr>Active = True, Scope = scope,
                                  ClientId = ''aegis-default-client'',
                                  Username = TokenClaims.Subject claims,
                                  IntrospectTokenResponse.TokenType = ''Bearer'',
                                  Exp = Unix exp, Iat = Unix iat, Sub = UserId claims,
                                  Iss = Issuer claims,
                                  IntrospectTokenResponse.Roles = TokenClaims.Roles claims,
                                  IntrospectTokenResponse.Permissions =
                                    TokenClaims.Permissions claims\<rparr>), w')))))"

definition RevokeToken :: "world \<Rightarrow> request \<Rightarrow> outcome \<times> world" where
  "RevokeToken w req =
     (case ShouldBindJSON ''RevokeTokenRequest'' ''Token'' req of
        Inl err \<Rightarrow> (Response StatusBadRequest (H_error err), w)
      | Inr (token, hint) \<Rightarrow>
          (case GlobalBlacklist w of
             None \<Rightarrow>
               (Response StatusInternalServerError
                  (H_error ''Token revocation system unavailable''), w)
           | Some bl \<Rightarrow>
               (case jwt_ValidateToken w token of
                  (Inl err, w') \<Rightarrow> (Response StatusBadRequest (H_error ''Invalid token''), w')
                | (Inr claims, w') \<Rightarrow>
                    if IsBlacklisted (TokenClaims.ID claims) bl
                    then (Response StatusOK (RevokeBody
                            \<lparr>Success = True, Message = ''Token already revoked''\<rparr>), w')
                    else
                      (case TokenClaims.ExpiresAt claims of
                         None \<Rightarrow> (Panic, w')
                       | Some exp \<Rightarrow>
                           (let expiresAt = time_Unix (Unix exp);
                                (bl', c') = Add (TokenClaims.ID claims) expiresAt bl (clock w')
                            in (Response StatusOK (RevokeBody
                                  \<lparr>Success = True, Message = ''Token revoked successfully''\<rparr>),
                                w'\<lparr>GlobalBlacklist := Some bl', clock := c'\<rparr>))))))"

text \<open>
  \<^verbatim>\<open>refreshToken\<close> parses the user identifier of the claims with \<^verbatim>\<open>uuid.Parse\<close>,
  a function of a second third-party library, taken as the argument \<open>uuid_Parse\<close>.
\<close>

definition refreshToken ::
  "(string \<Rightarrow> UUID option) \<Rightarrow> user_store \<Rightarrow> world \<Rightarrow> request \<Rightarrow> outcome \<times> world"
where
  "refreshToken uuid_Parse store w req =
     (case ShouldBindJSON ''RefreshTokenRequest'' ''RefreshToken'' req of
        Inl err \<Rightarrow> (Response StatusBadRequest (H_error err), w)
      | Inr (token, hint) \<Rightarrow>
          (case jwt_ValidateRefreshToken w token of
             (Inl err, w') \<Rightarrow> (Response StatusUnauthorized (H_error ''invalid refresh token''), w')
           | (Inr claims, w') \<Rightarrow>
               (case uuid_Parse (UserId claims) of
                  None \<Rightarrow> (Response StatusUnauthorized (H_error ''invalid token''), w')
                | Some userId \<Rightarrow>
                    (case GetUserById store userId of
                       None \<Rightarrow> (Response StatusUnauthorized (H_error ''user not found''), w')
                     | Some user \<Rightarrow>
                         (case GenerateTokenPair w' (User.Id user) (User.Subject user)
                                 (User.Roles user) (User.Permissions user) of
                            (Inl err, w'') \<Rightarrow>
                              (Response StatusInternalServerError
                                 (H_error ''failed to generate tokens''), w'')
                          | (Inr tokenPair, w'') \<Rightarrow>
                              (Response StatusOK (LoginBody
                                 \<lparr>LoginResponse.User = toUserResponse user,
                                  LoginResponse.AccessToken = TokenPair.AccessToken tokenPair,
                                  LoginResponse.RefreshToken = TokenPair.RefreshToken tokenPair,
                                  LoginResponse.ExpiresAt = TokenPair.ExpiresAt tokenPair,
                                  LoginResponse.RefreshExpiresAt =
                                    TokenPair.RefreshExpiresAt tokenPair\<rparr>), w''))))))"

subsection \<open>Serialisation of an introspection response\<close>

text \<open>
  \<^verbatim>\<open>encoding/json\<close> writes the fields of the struct in declaration order and leaves
  out a field tagged \<^verbatim>\<open>omitempty\<close> when it holds its zero value: the empty string,
  the number 0, a slice of length 0.  \<open>active\<close> carries no such tag.
\<close>

datatype json = JBool bool | JString string | JNumber int | JStrings "string list"

definition omitempty :: "string \<Rightarrow> json \<Rightarrow> (string \<times> json) list" where
  "omitempty name v =
     (if v = JString [] \<or> v = JNumber 0 \<or> v = JStrings [] \<or> v = JBool False then []
      else [(name, v)])"

definition marshal_IntrospectTokenResponse :: "IntrospectTokenResponse \<Rightarrow> (string \<times> json) list" where
  "marshal_IntrospectTokenResponse r =
     [(''active'', JBool (Active r))]
     @ omitempty ''scope'' (JString (Scope r))
     @ omitempty ''client_id'' (JString (ClientId r))
     @ omitempty ''username'' (JString (Username r))
     @ omitempty ''token_type'' (JString (IntrospectTokenResponse.TokenType r))
     @ omitempty ''exp'' (JNumber (Exp r))
     @ omitempty ''iat'' (JNumber (Iat r))
     @ omitempty ''sub'' (JString (Sub r))
     @ omitempty ''iss'' (JString (Iss r))
     @ omitempty ''roles'' (JStrings (IntrospectTokenResponse.Roles r))
     @ omitempty ''permissions'' (JStrings (IntrospectTokenResponse.Permissions r))"

section \<open>Sample data\<close>

subsection \<open>Sample clocks and a sample ledger\<close>

text \<open>A clock that stands still, and one that advances a nanosecond per reading.\<close>

definition frozen_clock :: "Time \<Rightarrow> clock" where
  "frozen_clock t = (\<lambda>i. t)"

definition ticking_clock :: "Time \<Rightarrow> clock" where
  "ticking_clock t = (\<lambda>i. t + int i)"

text \<open>A ledger with one entry past its expiry at time 1000 and one entry ahead of it.\<close>

definition sample_ledger :: MemoryBlacklist where
  "sample_ledger =
     fst (Add ''token-valid-1'' 4600 
       (fst (Add ''token-expired-1'' 400 NewMemoryBlacklist (frozen_clock 900)))
       (frozen_clock 900))"

subsection \<open>A sample process, its users and their tokens\<close>

text \<open>
  A process whose clock reads 1000 and then advances, with an initialised, empty ledger,
  and the same process without a ledger.
\<close>

definition sample_world :: world where
  "sample_world =
     \<lparr>JWT_SECRET = ''test-secret'', TOKEN_EXPIRATION = 1440 * Minute,
      GlobalBlacklist = Some NewMemoryBlacklist, clock = ticking_clock 1000\<rparr>"

definition unwired_world :: world where
  "unwired_world = sample_world\<lparr>GlobalBlacklist := None\<rparr>"

text \<open>
  The user \<open>alice\<close>; \<open>sample_token\<close> and \<open>sample_refresh_token\<close> are the pair that
  \<^verbatim>\<open>GenerateTokenPair\<close> issues to her in \<open>sample_world\<close> (lemma \<open>sample_issue\<close> below).
\<close>

definition alice :: UUID where
  "alice = UUID ''7c9e6679-7425-40de-944b-e07fc1f90ae7''"

definition sample_claims :: TokenClaims where
  "sample_claims =
     \<lparr>UserId = ''7c9e6679-7425-40de-944b-e07fc1f90ae7'', Subject = ''test@example.com'',
      Roles = [''admin''], Permissions = [''read:users''], TokenType = ''access'',
      Issuer = ''aegis'', TokenClaims.ExpiresAt = Some (86400 * Second), NotBefore = None,
      IssuedAt = Some 0, ID = []\<rparr>"

definition sample_token :: token_string where
  "sample_token = Signed SigningMethodHMAC ''test-secret'' sample_claims"

definition sample_refresh_token :: token_string where
  "sample_refresh_token = Signed SigningMethodHMAC ''test-secret''
     (sample_claims\<lparr>TokenClaims.TokenType := ''refresh'',
                     TokenClaims.ExpiresAt := Some (86460 * Second)\<rparr>)"

text \<open>
  Tokens that the codec rejects: a signature made with another key, a string that is not
  a token, a token of signing method \<^verbatim>\<open>none\<close>, a token past its expiry.  And a token
  that it accepts, with a role that is the empty string.
\<close>

definition tampered_token :: token_string where
  "tampered_token = Signed SigningMethodHMAC ''some-other-key'' sample_claims"

definition malformed_token :: token_string where
  "malformed_token = Unparsable ''token is malformed: token contains an invalid number of segments''"

definition unsigned_token :: token_string where
  "unsigned_token = Signed SigningMethodNone [] sample_claims"

definition expired_token :: token_string where
  "expired_token = Signed SigningMethodHMAC ''test-secret''
     (sample_claims\<lparr>TokenClaims.ExpiresAt := Some 1000\<rparr>)"

definition blank_role_token :: token_string where
  "blank_role_token = Signed SigningMethodHMAC ''test-secret''
     (sample_claims\<lparr>TokenClaims.Roles := [[]]\<rparr>)"

text \<open>
  The process after \<open>sample_token\<close> has been revoked in \<open>sample_world\<close> (lemma
  \<open>sample_revoke\<close> below), and the pair issued afterwards to a second user.
\<close>

definition revoked_world :: world where
  "revoked_world =
     sample_world\<lparr>GlobalBlacklist :=
       Some (fst (Add [] (86400 * Second) NewMemoryBlacklist (ticking_clock 1001))),
       clock := ticking_clock 1002\<rparr>"

definition bob :: UUID where
  "bob = UUID ''0b0b0b0b-0000-4000-8000-000000000002''"

definition bob_token :: token_string where
  "bob_token = Signed SigningMethodHMAC ''test-secret''
     \<lparr>UserId = ''0b0b0b0b-0000-4000-8000-000000000002'', Subject = ''bob@example.com'',
      Roles = [''user''], Permissions = [''read:self''], TokenType = ''access'',
      Issuer = ''aegis'', TokenClaims.ExpiresAt = Some (86400 * Second), NotBefore = None,
      IssuedAt = Some 0, ID = []\<rparr>"

definition bob_refresh_token :: token_string where
  "bob_refresh_token = Signed SigningMethodHMAC ''test-secret''
     \<lparr>UserId = ''0b0b0b0b-0000-4000-8000-000000000002'', Subject = ''bob@example.com'',
      Roles = [''user''], Permissions = [''read:self''], TokenType = ''refresh'',
      Issuer = ''aegis'', TokenClaims.ExpiresAt = Some (86460 * Second), NotBefore = None,
      IssuedAt = Some 0, ID = []\<rparr>"

text \<open>
  A user store in which alice has become an auditor, the empty store, the behaviour of
  \<^verbatim>\<open>uuid.Parse\<close> at alice's identifier, and the pair that a refresh issues to her from
  that store.
\<close>

definition sample_store :: user_store where
  "sample_store =
     [alice \<mapsto> \<lparr>User.Id = alice, User.Subject = ''test@example.com'',
                 User.Roles = [''auditor''], User.Permissions = []\<rparr>]"

definition empty_store :: user_store where
  "empty_store = Map.empty"

definition sample_uuid_Parse :: "string \<Rightarrow> UUID option" where
  "sample_uuid_Parse s =
     (if s = ''7c9e6679-7425-40de-944b-e07fc1f90ae7'' then Some alice else None)"

definition refreshed_access_token :: token_string where
  "refreshed_access_token = Signed SigningMethodHMAC ''test-secret''
     (sample_claims\<lparr>TokenClaims.Roles := [''auditor''], TokenClaims.Permissions := []\<rparr>)"

definition refreshed_refresh_token :: token_string where
  "refreshed_refresh_token = Signed SigningMethodHMAC ''test-secret''
     (sample_claims\<lparr>TokenClaims.Roles := [''auditor''], TokenClaims.Permissions := [],
                     TokenClaims.TokenType := ''refresh'',
                     TokenClaims.ExpiresAt := Some (86460 * Second)\<rparr>)"

section \<open>Properties of the ledger and of the scope string\<close>

lemma time_Now_frozen: "time_Now (frozen_clock t) = (t, frozen_clock t)"
  by (simp add: time_Now_def frozen_clock_def)

lemma time_Now_ticking: "time_Now (ticking_clock t) = (t, ticking_clock (t + 1))"
  by (auto simp add: time_Now_def ticking_clock_def)


lemma append_roles_eq:
  "append_roles scopes roles =
     scopes @ map (\<lambda>role. ''role:'' @ role) (filter (\<lambda>role. role \<noteq> []) roles)"
  by (induction roles arbitrary: scopes) simp_all

lemma append_permissions_eq:
  "append_permissions scopes permissions = scopes @ filter (\<lambda>p. p \<noteq> []) permissions"
  by (induction permissions arbitrary: scopes) simp_all

lemma buildScopeString_eq:
  "buildScopeString roles permissions =
     scope_as_described (filter (\<lambda>role. role \<noteq> []) roles) (filter (\<lambda>p. p \<noteq> []) permissions)"
  by (simp add: buildScopeString_def scope_as_described_def append_roles_eq append_permissions_eq)

lemma Cleanup_loop_entries:
  "fst (Cleanup_loop now ks (es, n)) jti =
     (if jti \<in> set ks
      then (case es jti of
              None \<Rightarrow> None
            | Some e \<Rightarrow> if BlacklistEntry.ExpiresAt e < now then None else Some e)
      else es jti)"
proof (induction ks arbitrary: es n)
  case Nil
  show ?case by simp
next
  case (Cons k ks)
  show ?case
  proof (cases "\<exists>e. es k = Some e \<and> BlacklistEntry.ExpiresAt e < now")
    case False
    then have step: "Cleanup_loop now (k # ks) (es, n) = Cleanup_loop now ks (es, n)"
      by (auto simp: Before_def split: option.splits)
    show ?thesis
      unfolding step Cons.IH [of es n] using False by (auto split: option.splits)
  next
    case True
    then obtain e where e: "es k = Some e" "BlacklistEntry.ExpiresAt e < now" by blast
    have step: "Cleanup_loop now (k # ks) (es, n) = Cleanup_loop now ks (es(k := None), n + 1)"
      using e by (simp add: Before_def)
    show ?thesis
      unfolding step Cons.IH [of "es(k := None)" "n + 1"] using e by auto
  qed
qed

lemma Cleanup_loop_removed:
  "snd (Cleanup_loop now ks (es, n)) =
     n + int (card {k \<in> set ks. \<exists>e. es k = Some e \<and> BlacklistEntry.ExpiresAt e < now})"
proof (induction ks arbitrary: es n)
  case Nil
  show ?case by simp
next
  case (Cons k ks)
  let ?P = "\<lambda>es k. \<exists>e. es k = Some e \<and> BlacklistEntry.ExpiresAt e < now"
  show ?case
  proof (cases "?P es k")
    case False
    then have same: "{j \<in> set (k # ks). ?P es j} = {j \<in> set ks. ?P es j}" by auto
    from False have step: "Cleanup_loop now (k # ks) (es, n) = Cleanup_loop now ks (es, n)"
      by (auto simp: Before_def split: option.splits)
    show ?thesis unfolding step same by (rule Cons.IH)
  next
    case True
    then obtain e where e: "es k = Some e" "BlacklistEntry.ExpiresAt e < now" by blast
    have step: "Cleanup_loop now (k # ks) (es, n) = Cleanup_loop now ks (es(k := None), n + 1)"
      using e by (simp add: Before_def)
    have rest: "{j \<in> set ks. ?P (es(k := None)) j} = {j \<in> set ks. ?P es j} - {k}" by auto
    have all: "{j \<in> set (k # ks). ?P es j} = insert k ({j \<in> set ks. ?P es j} - {k})"
      using True by auto
    have fin: "finite ({j \<in> set ks. ?P es j} - {k})" by simp
    have card: "card (insert k ({j \<in> set ks. ?P es j} - {k}))
                  = Suc (card ({j \<in> set ks. ?P es j} - {k}))"
      using fin by (rule card_insert_disjoint) simp
    have "snd (Cleanup_loop now ks (es(k := None), n + 1))
            = n + 1 + int (card ({j \<in> set ks. ?P es j} - {k}))"
      unfolding Cons.IH [of "es(k := None)" "n + 1"] rest by (rule refl)
    then show ?thesis unfolding step all card by simp
  qed
qed

lemma sample_ledger_entries:
  "entries sample_ledger =
     [''token-expired-1'' \<mapsto> \<lparr>JTI = ''token-expired-1'', BlacklistEntry.ExpiresAt = 400, RevokedAt = 900\<rparr>,
      ''token-valid-1'' \<mapsto> \<lparr>JTI = ''token-valid-1'', BlacklistEntry.ExpiresAt = 4600, RevokedAt = 900\<rparr>]"
  by (simp add: sample_ledger_def Add_def NewMemoryBlacklist_def time_Now_frozen)

text \<open>
  Claim C6, as amended.  \<^verbatim>\<open>Cleanup\<close> deletes exactly the entries whose expiry is strictly
  before the clock reading it takes, whatever the order in which the map is ranged over.
  An entry whose expiry is at or after that reading stays, the one expiring at the very
  instant of the reading included; keys not in the ledger stay absent; the returned count
  is the number of entries deleted.
\<close>

theorem Cleanup_removes_strictly_expired:
  assumes keys: "set ks = dom (entries b)"
      and run: "Cleanup ks b c = ((removed, b'), c')"
  shows "(\<forall>jti e. entries b jti = Some e \<longrightarrow>
            entries b' jti = (if BlacklistEntry.ExpiresAt e < c 0 then None else Some e))
       \<and> (\<forall>jti. entries b jti = None \<longrightarrow> entries b' jti = None)
       \<and> removed = int (card {jti. \<exists>e. entries b jti = Some e \<and> BlacklistEntry.ExpiresAt e < c 0})"
proof -
  have es: "entries b' = fst (Cleanup_loop (c 0) ks (entries b, 0))"
    and n: "removed = snd (Cleanup_loop (c 0) ks (entries b, 0))"
    using run by (auto simp: Cleanup_def time_Now_def split: prod.splits)
  have kept: "\<forall>jti e. entries b jti = Some e \<longrightarrow>
           entries b' jti = (if BlacklistEntry.ExpiresAt e < c 0 then None else Some e)"
    using keys by (auto simp: es Cleanup_loop_entries)
  have absent: "\<forall>jti. entries b jti = None \<longrightarrow> entries b' jti = None"
    using keys by (auto simp: es Cleanup_loop_entries split: option.splits)
  have "{k \<in> set ks. \<exists>e. entries b k = Some e \<and> BlacklistEntry.ExpiresAt e < c 0}
        = {jti. \<exists>e. entries b jti = Some e \<and> BlacklistEntry.ExpiresAt e < c 0}"
    using keys by auto
  then have count: "removed = int (card {jti. \<exists>e. entries b jti = Some e \<and> BlacklistEntry.ExpiresAt e < c 0})"
    by (simp add: n Cleanup_loop_removed)
  from kept absent count show ?thesis by blast
qed

theorem Cleanup_removes_strictly_expired_witness:
  "set [''token-valid-1'', ''token-expired-1''] = dom (entries sample_ledger)
   \<and> Cleanup [''token-valid-1'', ''token-expired-1''] sample_ledger (frozen_clock 1000)
       = ((1, sample_ledger\<lparr>entries := (entries sample_ledger)(''token-expired-1'' := None)\<rparr>),
          frozen_clock 1000)
   \<and> entries (sample_ledger\<lparr>entries := (entries sample_ledger)(''token-expired-1'' := None)\<rparr>)
        ''token-expired-1'' = None
   \<and> entries (sample_ledger\<lparr>entries := (entries sample_ledger)(''token-expired-1'' := None)\<rparr>)
        ''token-valid-1'' = entries sample_ledger ''token-valid-1''
   \<and> (1::int) = int (card {jti. \<exists>e. entries sample_ledger jti = Some e
                                   \<and> BlacklistEntry.ExpiresAt e < frozen_clock 1000 0})"
proof -
  have keys: "set [''token-valid-1'', ''token-expired-1''] = dom (entries sample_ledger)"
    by (auto simp: sample_ledger_entries)
  have run: "Cleanup [''token-valid-1'', ''token-expired-1''] sample_ledger (frozen_clock 1000)
       = ((1, sample_ledger\<lparr>entries := (entries sample_ledger)(''token-expired-1'' := None)\<rparr>),
          frozen_clock 1000)"
    by (simp add: Cleanup_def time_Now_frozen sample_ledger_entries Before_def)
  from Cleanup_removes_strictly_expired [OF keys run] keys run show ?thesis
    by simp
qed

text \<open>
  Claim C6 as worded asks for the entry whose expiry equals the current time to be
  removed.  The comparison is \<^verbatim>\<open>ExpiresAt.Before(now)\<close>: with the clock at 1000, the
  entry that expires at 1000 is kept and the count is 0.
\<close>

theorem Cleanup_keeps_entry_expiring_now:
  "fst (Cleanup [''boundary-token'']
          (fst (Add ''boundary-token'' 1000 NewMemoryBlacklist (frozen_clock 1000)))
          (frozen_clock 1000))
   = (0, fst (Add ''boundary-token'' 1000 NewMemoryBlacklist (frozen_clock 1000)))
   \<and> IsBlacklisted ''boundary-token''
        (fst (Add ''boundary-token'' 1000 NewMemoryBlacklist (frozen_clock 1000)))"
  by (simp add: Cleanup_def Add_def NewMemoryBlacklist_def time_Now_frozen Before_def IsBlacklisted_def)

section \<open>Properties of the codec\<close>

lemma jwt_ValidateToken_world:
  "GlobalBlacklist (snd (jwt_ValidateToken w t)) = GlobalBlacklist w
   \<and> JWT_SECRET (snd (jwt_ValidateToken w t)) = JWT_SECRET w
   \<and> TOKEN_EXPIRATION (snd (jwt_ValidateToken w t)) = TOKEN_EXPIRATION w"
  by (auto simp: jwt_ValidateToken_def jwt_ParseWithClaims_def Let_def
           split: token_string.splits sum.splits prod.splits if_splits)

lemma jwt_ValidateToken_blacklist:
  "jwt_ValidateToken w t = (r, w') \<Longrightarrow> GlobalBlacklist w' = GlobalBlacklist w"
  using jwt_ValidateToken_world [of w t] by auto

lemma blacklisted_after:
  "jwt_ValidateToken w t = (r, w') \<Longrightarrow> blacklisted w' jti = blacklisted w jti"
  by (simp add: blacklisted_def jwt_ValidateToken_blacklist)


lemma jwt_ValidateRefreshToken_world:
  assumes "jwt_ValidateRefreshToken w t = (r, w1)"
  shows "JWT_SECRET w1 = JWT_SECRET w \<and> TOKEN_EXPIRATION w1 = TOKEN_EXPIRATION w
         \<and> GlobalBlacklist w1 = GlobalBlacklist w"
proof -
  have "w1 = snd (jwt_ValidateToken w t)"
    using assms by (auto simp: jwt_ValidateRefreshToken_def split: prod.splits sum.splits if_splits)
  then show ?thesis using jwt_ValidateToken_world [of w t] by simp
qed

lemma GenerateTokenPair_result:
  "GenerateTokenPair w userId subject roles permissions =
     (Inr \<lparr>TokenPair.AccessToken = Signed SigningMethodHMAC (JWT_SECRET w)
              \<lparr>UserId = uuid_String userId, Subject = subject, Roles = roles,
               Permissions = permissions, TokenType = ''access'', Issuer = ''aegis'',
               TokenClaims.ExpiresAt = Some (Truncate (clock w 2 + TOKEN_EXPIRATION w) Second),
               NotBefore = None, IssuedAt = Some (Truncate (clock w 3) Second), ID = []\<rparr>,
           RefreshToken = Signed SigningMethodHMAC (JWT_SECRET w)
              \<lparr>UserId = uuid_String userId, Subject = subject, Roles = roles,
               Permissions = permissions, TokenType = ''refresh'', Issuer = ''aegis'',
               TokenClaims.ExpiresAt =
                 Some (Truncate (clock w 4 + (TOKEN_EXPIRATION w + REFRESH_TOKEN_EXTRA_TIME)) Second),
               NotBefore = None, IssuedAt = Some (Truncate (clock w 5) Second), ID = []\<rparr>,
           TokenPair.ExpiresAt = clock w 0 + TOKEN_EXPIRATION w,
           RefreshExpiresAt = clock w 1 + (TOKEN_EXPIRATION w + REFRESH_TOKEN_EXTRA_TIME)\<rparr>,
      w\<lparr>clock := \<lambda>i. clock w (i + 6)\<rparr>)"
  by (simp add: GenerateTokenPair_def generateTokenWithType_def time_Now_def Let_def
        jwt_NewNumericDate_def jwt_SignedString_def eval_nat_numeral)

lemma GenerateTokenPair_grace:
  assumes "GenerateTokenPair w userId subject roles permissions = (Inr pair, w')"
  shows "TokenPair.RefreshExpiresAt pair - TokenPair.ExpiresAt pair
           = REFRESH_TOKEN_EXTRA_TIME + (clock w 1 - clock w 0)"
  using assms unfolding GenerateTokenPair_result by auto

lemma GenerateTokenPair_later:
  assumes "GenerateTokenPair w userId subject roles permissions = (Inr pair, w')"
      and "monotonic (clock w)"
  shows "TokenPair.ExpiresAt pair < TokenPair.RefreshExpiresAt pair"
proof -
  have "clock w 0 \<le> clock w 1"
    using assms(2) by (simp add: monotonic_def)
  then show ?thesis
    using GenerateTokenPair_grace [OF assms(1)]
    by (simp add: REFRESH_TOKEN_EXTRA_TIME_def Minute_def Second_def)
qed


section \<open>Properties of the handlers\<close>

lemma determineValidationError_nonempty: "determineValidationError err \<noteq> []"
  by (simp add: determineValidationError_def)

lemma determine_signature:
  "determineValidationError ''token signature is invalid: signature is invalid'' = ''invalid signature''"
  by (simp add: determineValidationError_def)



lemma ValidateToken_rejected:
  "jwt_ValidateToken w t = (Inl err, w') \<Longrightarrow>
   ValidateToken w (JSONBody (Some t) h) =
     (Response StatusOK (ValidateBody
        \<lparr>Valid = False, User = None, ValidateTokenResponse.ExpiresAt = None,
         Error = determineValidationError err\<rparr>), w')"
  by (simp add: ValidateToken_def)

lemma ValidateToken_revoked:
  "jwt_ValidateToken w t = (Inr claims, w') \<Longrightarrow> blacklisted w (TokenClaims.ID claims) \<Longrightarrow>
   ValidateToken w (JSONBody (Some t) h) =
     (Response StatusOK (ValidateBody
        \<lparr>Valid = False, User = None, ValidateTokenResponse.ExpiresAt = None,
         Error = ''token revoked''\<rparr>), w')"
  by (simp add: ValidateToken_def blacklisted_after)

lemma ValidateToken_accepted:
  "jwt_ValidateToken w t = (Inr claims, w') \<Longrightarrow> \<not> blacklisted w (TokenClaims.ID claims) \<Longrightarrow>
   TokenClaims.ExpiresAt claims = Some e \<Longrightarrow>
   ValidateToken w (JSONBody (Some t) h) =
     (Response StatusOK (ValidateBody
        \<lparr>Valid = True,
         User = Some \<lparr>UserInfo.ID = UserId claims,
                      UserInfo.Subject = TokenClaims.Subject claims,
                      UserInfo.Roles = TokenClaims.Roles claims,
                      UserInfo.Permissions = TokenClaims.Permissions claims\<rparr>,
         ValidateTokenResponse.ExpiresAt = Some e, Error = []\<rparr>), w')"
  by (simp add: ValidateToken_def blacklisted_after)

lemma IntrospectToken_rejected:
  "jwt_ValidateToken w t = (Inl err, w') \<Longrightarrow>
   IntrospectToken w (JSONBody (Some t) h) = (Response StatusOK (IntrospectBody inactive), w')"
  by (simp add: IntrospectToken_def)

lemma IntrospectToken_revoked:
  "jwt_ValidateToken w t = (Inr claims, w') \<Longrightarrow> blacklisted w (TokenClaims.ID claims) \<Longrightarrow>
   IntrospectToken w (JSONBody (Some t) h) = (Response StatusOK (IntrospectBody inactive), w')"
  by (simp add: IntrospectToken_def blacklisted_after)

lemma IntrospectToken_accepted:
  "jwt_ValidateToken w t = (Inr claims, w') \<Longrightarrow> \<not> blacklisted w (TokenClaims.ID claims) \<Longrightarrow>
   TokenClaims.ExpiresAt claims = Some e \<Longrightarrow> IssuedAt claims = Some i \<Longrightarrow>
   IntrospectToken w (JSONBody (Some t) h) =
     (Response StatusOK (IntrospectBody
        \<lparr>Active = True,
         Scope = buildScopeString (TokenClaims.Roles claims) (TokenClaims.Permissions claims),
         ClientId = ''aegis-default-client'',
         Username = TokenClaims.Subject claims,
         IntrospectTokenResponse.TokenType = ''Bearer'',
         Exp = Unix e, Iat = Unix i, Sub = UserId claims, Iss = Issuer claims,
         IntrospectTokenResponse.Roles = TokenClaims.Roles claims,
         IntrospectTokenResponse.Permissions = TokenClaims.Permissions claims\<rparr>), w')"
  by (simp add: IntrospectToken_def blacklisted_after)

lemma marshal_inactive: "marshal_IntrospectTokenResponse inactive = [(''active'', JBool False)]"
  by (simp add: marshal_IntrospectTokenResponse_def inactive_def omitempty_def)


text \<open>Issuing, validating and introspecting leave the ledger as it is.\<close>

lemma ledger_unchanged:
  "GlobalBlacklist (snd (GenerateTokenPair w userId subject roles permissions)) = GlobalBlacklist w
   \<and> GlobalBlacklist (snd (ValidateToken w req)) = GlobalBlacklist w
   \<and> GlobalBlacklist (snd (IntrospectToken w req)) = GlobalBlacklist w"
proof -
  have v: "\<And>t r w'. jwt_ValidateToken w t = (r, w') \<Longrightarrow> GlobalBlacklist w' = GlobalBlacklist w"
    by (rule jwt_ValidateToken_blacklist)
  have a: "GlobalBlacklist (snd (GenerateTokenPair w userId subject roles permissions)) = GlobalBlacklist w"
    by (simp add: GenerateTokenPair_result)
  have b: "GlobalBlacklist (snd (ValidateToken w req)) = GlobalBlacklist w"
    by (auto simp: ValidateToken_def dest: v split: sum.splits prod.splits option.splits)
  have c: "GlobalBlacklist (snd (IntrospectToken w req)) = GlobalBlacklist w"
    by (auto simp: IntrospectToken_def Let_def dest: v split: sum.splits prod.splits option.splits)
  from a b c show ?thesis by blast
qed

section \<open>The sample process, evaluated\<close>

lemma ticking_clock_at: "ticking_clock t i = t + int i"
  by (simp add: ticking_clock_def)

lemmas sample_defs = sample_world_def sample_claims_def sample_token_def tampered_token_def
  malformed_token_def unsigned_token_def revoked_world_def

lemmas jwt_eval = jwt_ValidateToken_def jwt_ParseWithClaims_def keyFunc_def time_Now_ticking
  time_Now_frozen verifyExpiresAt_def verifyNotBefore_def Before_def Second_def Minute_def

lemma sample_token_accepted:
  "jwt_ValidateToken sample_world sample_token
     = (Inr sample_claims, sample_world\<lparr>clock := ticking_clock 1001\<rparr>)"
  by (simp add: sample_defs jwt_eval)

lemma tampered_token_rejected:
  "jwt_ValidateToken sample_world tampered_token
     = (Inl ''token signature is invalid: signature is invalid'', sample_world)"
  by (simp add: sample_defs jwt_eval)

lemma malformed_token_rejected:
  "jwt_ValidateToken sample_world malformed_token
     = (Inl ''token is malformed: token contains an invalid number of segments'', sample_world)"
  by (simp add: sample_defs jwt_eval)


lemma expired_token_rejected:
  "jwt_ValidateToken sample_world expired_token
     = (Inl ''token has invalid claims: token is expired'',
        sample_world\<lparr>clock := ticking_clock 1001\<rparr>)"
  by (simp add: sample_defs expired_token_def jwt_eval)

lemma sample_world_not_blacklisted: "\<not> blacklisted sample_world jti"
  by (simp add: blacklisted_def sample_world_def IsBlacklisted_def NewMemoryBlacklist_def)

lemma sample_scope:
  "buildScopeString [''admin''] [''read:users''] = ''role:admin read:users''"
  by (simp add: buildScopeString_def)

lemma sample_issue:
  "GenerateTokenPair sample_world alice ''test@example.com'' [''admin''] [''read:users''] =
     (Inr \<lparr>TokenPair.AccessToken = sample_token, RefreshToken = sample_refresh_token,
           TokenPair.ExpiresAt = 86400000001000, RefreshExpiresAt = 86460000001001\<rparr>,
      sample_world\<lparr>clock := ticking_clock 1006\<rparr>)"
  unfolding GenerateTokenPair_result
  by (simp add: sample_defs sample_refresh_token_def alice_def ticking_clock_at
        ticking_clock_def [symmetric] Truncate_def Second_def Minute_def
        REFRESH_TOKEN_EXTRA_TIME_def)


lemma revoked_world_blacklisted: "blacklisted revoked_world []"
  by (simp add: blacklisted_def revoked_world_def IsBlacklisted_def Add_def time_Now_ticking
        NewMemoryBlacklist_def)

lemma sample_token_accepted_revoked_world:
  "jwt_ValidateToken revoked_world sample_token
     = (Inr sample_claims, revoked_world\<lparr>clock := ticking_clock 1003\<rparr>)"
  by (simp add: sample_defs jwt_eval)

lemma bob_issue:
  "GenerateTokenPair revoked_world bob ''bob@example.com'' [''user''] [''read:self''] =
     (Inr \<lparr>TokenPair.AccessToken = bob_token, RefreshToken = bob_refresh_token,
           TokenPair.ExpiresAt = 86400000001002, RefreshExpiresAt = 86460000001003\<rparr>,
      revoked_world\<lparr>clock := ticking_clock 1008\<rparr>)"
  unfolding GenerateTokenPair_result
  by (simp add: revoked_world_def sample_world_def bob_def bob_token_def bob_refresh_token_def
        ticking_clock_at ticking_clock_def [symmetric] Truncate_def Second_def Minute_def
        REFRESH_TOKEN_EXTRA_TIME_def)


lemma sample_refresh_token_accepted:
  "jwt_ValidateRefreshToken sample_world sample_refresh_token
     = (Inr (sample_claims\<lparr>TokenClaims.TokenType := ''refresh'',
                            TokenClaims.ExpiresAt := Some (86460 * Second)\<rparr>),
        sample_world\<lparr>clock := ticking_clock 1001\<rparr>)"
  by (simp add: jwt_ValidateRefreshToken_def sample_defs sample_refresh_token_def jwt_eval)

lemma sample_refresh:
  "refreshToken sample_uuid_Parse sample_store sample_world
       (JSONBody (Some sample_refresh_token) []) =
     (Response StatusOK (LoginBody
        \<lparr>LoginResponse.User =
           \<lparr>UserResponse.Id = ''7c9e6679-7425-40de-944b-e07fc1f90ae7'',
            UserResponse.Subject = ''test@example.com'',
            UserResponse.Roles = [''auditor''], UserResponse.Permissions = []\<rparr>,
         AccessToken = refreshed_access_token, RefreshToken = refreshed_refresh_token,
         ExpiresAt = 86400000001001, RefreshExpiresAt = 86460000001002\<rparr>),
      sample_world\<lparr>clock := ticking_clock 1007\<rparr>)"
proof -
  have parse: "sample_uuid_Parse (UserId (sample_claims\<lparr>TokenClaims.TokenType := ''refresh'',
                            TokenClaims.ExpiresAt := Some (86460 * Second)\<rparr>)) = Some alice"
    by (simp add: sample_uuid_Parse_def sample_claims_def)
  have user: "GetUserById sample_store alice =
                Some \<lparr>User.Id = alice, User.Subject = ''test@example.com'',
                      User.Roles = [''auditor''], User.Permissions = []\<rparr>"
    by (simp add: GetUserById_def sample_store_def)
  have issue: "GenerateTokenPair (sample_world\<lparr>clock := ticking_clock 1001\<rparr>) alice
                 ''test@example.com'' [''auditor''] [] =
     (Inr \<lparr>TokenPair.AccessToken = refreshed_access_token,
           RefreshToken = refreshed_refresh_token,
           TokenPair.ExpiresAt = 86400000001001, RefreshExpiresAt = 86460000001002\<rparr>,
      sample_world\<lparr>clock := ticking_clock 1007\<rparr>)"
    unfolding GenerateTokenPair_result
    by (simp add: sample_defs refreshed_access_token_def refreshed_refresh_token_def alice_def
          ticking_clock_at ticking_clock_def [symmetric] Truncate_def Second_def Minute_def
          REFRESH_TOKEN_EXTRA_TIME_def)
  have parse': "sample_uuid_Parse (UserId sample_claims) = Some alice"
    by (simp add: sample_uuid_Parse_def sample_claims_def)
  have resp: "toUserResponse \<lparr>User.Id = alice, User.Subject = ''test@example.com'',
                      User.Roles = [''auditor''], User.Permissions = []\<rparr> =
                \<lparr>UserResponse.Id = ''7c9e6679-7425-40de-944b-e07fc1f90ae7'',
                 UserResponse.Subject = ''test@example.com'',
                 UserResponse.Roles = [''auditor''], UserResponse.Permissions = []\<rparr>"
    by (simp add: toUserResponse_def alice_def)
  show ?thesis
    by (simp add: refreshToken_def sample_refresh_token_accepted parse' user issue resp)
qed

lemma sample_refresh_without_user:
  "refreshToken sample_uuid_Parse empty_store sample_world
       (JSONBody (Some sample_refresh_token) []) =
     (Response StatusUnauthorized (H_error ''user not found''),
      sample_world\<lparr>clock := ticking_clock 1001\<rparr>)"
proof -
  have parse: "sample_uuid_Parse (UserId (sample_claims\<lparr>TokenClaims.TokenType := ''refresh'',
                            TokenClaims.ExpiresAt := Some (86460 * Second)\<rparr>)) = Some alice"
    by (simp add: sample_uuid_Parse_def sample_claims_def)
  have parse': "sample_uuid_Parse (UserId sample_claims) = Some alice"
    by (simp add: sample_uuid_Parse_def sample_claims_def)
  show ?thesis
    by (simp add: refreshToken_def sample_refresh_token_accepted parse' GetUserById_def
          empty_store_def)
qed

section \<open>Issuance\<close>

text \<open>
  Claim C1: each token of an issued pair carries a fresh JTI of its own.
  \<^verbatim>\<open>generateTokenWithType\<close> never sets the \<^verbatim>\<open>ID\<close> of the registered claims, so the
  property fails: the access and the refresh token issued to alice, and those issued
  later to bob, all carry the empty JTI (as every issued token does, lemma
  \<open>GenerateTokenPair_JTI\<close>).
\<close>

theorem GenerateTokenPair_JTI_is_empty:
  "fst (GenerateTokenPair sample_world alice ''test@example.com'' [''admin''] [''read:users'']) =
     Inr \<lparr>TokenPair.AccessToken = sample_token, RefreshToken = sample_refresh_token,
          TokenPair.ExpiresAt = 86400000001000, RefreshExpiresAt = 86460000001001\<rparr>
   \<and> fst (GenerateTokenPair revoked_world bob ''bob@example.com'' [''user''] [''read:self'']) =
     Inr \<lparr>TokenPair.AccessToken = bob_token, RefreshToken = bob_refresh_token,
          TokenPair.ExpiresAt = 86400000001002, RefreshExpiresAt = 86460000001003\<rparr>
   \<and> map_option TokenClaims.ID (jwt_ParseUnverified sample_token) = Some []
   \<and> map_option TokenClaims.ID (jwt_ParseUnverified sample_refresh_token) = Some []
   \<and> map_option TokenClaims.ID (jwt_ParseUnverified bob_token) = Some []
   \<and> map_option TokenClaims.ID (jwt_ParseUnverified bob_refresh_token) = Some []"
  by (simp add: sample_issue bob_issue jwt_ParseUnverified_def sample_token_def
        sample_refresh_token_def sample_claims_def bob_token_def bob_refresh_token_def)

text \<open>
  Claim C5: the refresh expiry of an issued pair is later than the access expiry by the
  grace interval of one minute exactly.  \<^verbatim>\<open>GenerateTokenPair\<close> reads the clock once for
  each of the two expiries, so the difference is the grace interval plus the time between
  the two readings (lemma \<open>GenerateTokenPair_grace\<close>; strictly later on a monotonic clock,
  lemma \<open>GenerateTokenPair_later\<close>).  On a clock that advances one nanosecond per
  reading the difference is one minute and one nanosecond.
\<close>

theorem GenerateTokenPair_grace_interval_drifts:
  "fst (GenerateTokenPair sample_world alice ''test@example.com'' [''admin''] [''read:users'']) =
     Inr \<lparr>TokenPair.AccessToken = sample_token, RefreshToken = sample_refresh_token,
          TokenPair.ExpiresAt = 86400000001000, RefreshExpiresAt = 86460000001001\<rparr>
   \<and> (86460000001001::int) - 86400000001000 = REFRESH_TOKEN_EXTRA_TIME + 1"
  by (simp add: sample_issue REFRESH_TOKEN_EXTRA_TIME_def Minute_def Second_def)

section \<open>Revocation\<close>



text \<open>
  Claim C10: when the global ledger is nil, no JTI counts as revoked; the validate and
  introspect endpoints report a token that the codec accepts (and that carries its expiry
  and issue dates, as every issued token does) as valid and active; the revoke endpoint
  answers every request that carries a token with HTTP 500 and an error body.
\<close>

theorem nil_blacklist_skips_revocation:
  assumes nil: "GlobalBlacklist w = None"
      and ok: "jwt_ValidateToken w t = (Inr claims, w')"
      and exp: "TokenClaims.ExpiresAt claims = Some e"
      and iat: "IssuedAt claims = Some i"
  shows "\<not> blacklisted w jti
       \<and> ValidateToken w (JSONBody (Some t) h) =
           (Response StatusOK (ValidateBody
              \<lparr>Valid = True,
               User = Some \<lparr>UserInfo.ID = UserId claims,
                            UserInfo.Subject = TokenClaims.Subject claims,
                            UserInfo.Roles = TokenClaims.Roles claims,
                            UserInfo.Permissions = TokenClaims.Permissions claims\<rparr>,
               ValidateTokenResponse.ExpiresAt = Some e, Error = []\<rparr>), w')
       \<and> IntrospectToken w (JSONBody (Some t) h) =
           (Response StatusOK (IntrospectBody
              \<lparr>Active = True,
               Scope = buildScopeString (TokenClaims.Roles claims) (TokenClaims.Permissions claims),
               ClientId = ''aegis-default-client'',
               Username = TokenClaims.Subject claims,
               IntrospectTokenResponse.TokenType = ''Bearer'',
               Exp = Unix e, Iat = Unix i, Sub = UserId claims, Iss = Issuer claims,
               IntrospectTokenResponse.Roles = TokenClaims.Roles claims,
               IntrospectTokenResponse.Permissions = TokenClaims.Permissions claims\<rparr>), w')
       \<and> RevokeToken w (JSONBody (Some t2) h2) =
           (Response StatusInternalServerError
              (H_error ''Token revocation system unavailable''), w)
       \<and> StatusOK = 200 \<and> StatusInternalServerError = 500"
proof -
  have free: "\<And>j. \<not> blacklisted w j"
    using nil by (simp add: blacklisted_def)
  have revoke: "RevokeToken w (JSONBody (Some t2) h2) =
           (Response StatusInternalServerError
              (H_error ''Token revocation system unavailable''), w)"
    using nil by (simp add: RevokeToken_def)
  show ?thesis
    using free revoke ValidateToken_accepted [OF ok free exp]
      IntrospectToken_accepted [OF ok free exp iat]
    by (simp add: StatusOK_def StatusInternalServerError_def)
qed

theorem nil_blacklist_skips_revocation_witness:
  "GlobalBlacklist unwired_world = None
   \<and> jwt_ValidateToken unwired_world sample_token
       = (Inr sample_claims, unwired_world\<lparr>clock := ticking_clock 1001\<rparr>)
   \<and> ValidateToken unwired_world (JSONBody (Some sample_token) []) =
       (Response 200 (ValidateBody
          \<lparr>Valid = True,
           User = Some \<lparr>UserInfo.ID = ''7c9e6679-7425-40de-944b-e07fc1f90ae7'',
                        UserInfo.Subject = ''test@example.com'',
                        UserInfo.Roles = [''admin''],
                        UserInfo.Permissions = [''read:users'']\<rparr>,
           ValidateTokenResponse.ExpiresAt = Some (86400 * Second), Error = []\<rparr>),
        unwired_world\<lparr>clock := ticking_clock 1001\<rparr>)
   \<and> IntrospectToken unwired_world (JSONBody (Some sample_token) []) =
       (Response 200 (IntrospectBody
          \<lparr>Active = True, Scope = ''role:admin read:users'',
           ClientId = ''aegis-default-client'', Username = ''test@example.com'',
           IntrospectTokenResponse.TokenType = ''Bearer'', Exp = 86400, Iat = 0,
           Sub = ''7c9e6679-7425-40de-944b-e07fc1f90ae7'', Iss = ''aegis'',
           IntrospectTokenResponse.Roles = [''admin''],
           IntrospectTokenResponse.Permissions = [''read:users'']\<rparr>),
        unwired_world\<lparr>clock := ticking_clock 1001\<rparr>)
   \<and> RevokeToken unwired_world (JSONBody (Some sample_token) []) =
       (Response 500 (H_error ''Token revocation system unavailable''), unwired_world)"
proof -
  have nil: "GlobalBlacklist unwired_world = None"
    by (simp add: unwired_world_def)
  have ok: "jwt_ValidateToken unwired_world sample_token
       = (Inr sample_claims, unwired_world\<lparr>clock := ticking_clock 1001\<rparr>)"
    by (simp add: unwired_world_def sample_defs jwt_eval)
  have exp: "TokenClaims.ExpiresAt sample_claims = Some (86400 * Second)"
    by (simp add: sample_claims_def)
  have iat: "IssuedAt sample_claims = Some 0"
    by (simp add: sample_claims_def)
  from nil_blacklist_skips_revocation [OF nil ok exp iat, of _ "[]" sample_token "[]"] nil ok
  show ?thesis
    by (simp add: sample_claims_def sample_scope Unix_def Second_def)
qed

section \<open>Refresh\<close>

text \<open>
  Claim C3, as amended.  For a refresh token that \<^verbatim>\<open>ValidateRefreshToken\<close> accepts and
  whose user identifier parses, the refresh endpoint looks the user up in the user store.
  When the store has no such user it answers HTTP 401 \<^verbatim>\<open>user not found\<close>; otherwise it
  issues a new pair that carries the identifier, subject, roles and permissions of the
  stored user, not those of the presented claims.
\<close>

theorem refreshToken_reissues_from_the_user_store:
  assumes ok: "jwt_ValidateRefreshToken w t = (Inr claims, w1)"
      and parse: "uuid_Parse (UserId claims) = Some userId"
  shows "(store userId = None \<longrightarrow>
            refreshToken uuid_Parse store w (JSONBody (Some t) h) =
              (Response StatusUnauthorized (H_error ''user not found''), w1))
       \<and> (store userId = Some user \<longrightarrow>
            (\<exists>a b w2.
               refreshToken uuid_Parse store w (JSONBody (Some t) h) =
                 (Response StatusOK (LoginBody
                    \<lparr>LoginResponse.User = toUserResponse user,
                     AccessToken = Signed SigningMethodHMAC (JWT_SECRET w) a,
                     RefreshToken = Signed SigningMethodHMAC (JWT_SECRET w) b,
                     ExpiresAt = clock w1 0 + TOKEN_EXPIRATION w,
                     RefreshExpiresAt =
                       clock w1 1 + (TOKEN_EXPIRATION w + REFRESH_TOKEN_EXTRA_TIME)\<rparr>), w2)
               \<and> UserId a = uuid_String (User.Id user) \<and> UserId b = uuid_String (User.Id user)
               \<and> TokenClaims.Subject a = User.Subject user
               \<and> TokenClaims.Subject b = User.Subject user
               \<and> TokenClaims.Roles a = User.Roles user
               \<and> TokenClaims.Roles b = User.Roles user
               \<and> TokenClaims.Permissions a = User.Permissions user
               \<and> TokenClaims.Permissions b = User.Permissions user
               \<and> TokenClaims.TokenType a = ''access''
               \<and> TokenClaims.TokenType b = ''refresh''))"
proof -
  have same: "JWT_SECRET w1 = JWT_SECRET w" "TOKEN_EXPIRATION w1 = TOKEN_EXPIRATION w"
    using jwt_ValidateRefreshToken_world [OF ok] by simp_all
  have missing: "store userId = None \<longrightarrow>
            refreshToken uuid_Parse store w (JSONBody (Some t) h) =
              (Response StatusUnauthorized (H_error ''user not found''), w1)"
    using ok parse by (simp add: refreshToken_def GetUserById_def)
  have found: "store userId = Some user \<longrightarrow>
       refreshToken uuid_Parse store w (JSONBody (Some t) h) =
         (Response StatusOK (LoginBody
            \<lparr>LoginResponse.User = toUserResponse user,
             AccessToken = Signed SigningMethodHMAC (JWT_SECRET w)
               \<lparr>UserId = uuid_String (User.Id user), Subject = User.Subject user,
                Roles = User.Roles user, Permissions = User.Permissions user,
                TokenType = ''access'', Issuer = ''aegis'',
                TokenClaims.ExpiresAt = Some (Truncate (clock w1 2 + TOKEN_EXPIRATION w) Second),
                NotBefore = None, IssuedAt = Some (Truncate (clock w1 3) Second), ID = []\<rparr>,
             RefreshToken = Signed SigningMethodHMAC (JWT_SECRET w)
               \<lparr>UserId = uuid_String (User.Id user), Subject = User.Subject user,
                Roles = User.Roles user, Permissions = User.Permissions user,
                TokenType = ''refresh'', Issuer = ''aegis'',
                TokenClaims.ExpiresAt =
                  Some (Truncate (clock w1 4 + (TOKEN_EXPIRATION w + REFRESH_TOKEN_EXTRA_TIME)) Second),
                NotBefore = None, IssuedAt = Some (Truncate (clock w1 5) Second), ID = []\<rparr>,
             ExpiresAt = clock w1 0 + TOKEN_EXPIRATION w,
             RefreshExpiresAt = clock w1 1 + (TOKEN_EXPIRATION w + REFRESH_TOKEN_EXTRA_TIME)\<rparr>),
          w1\<lparr>clock := \<lambda>i. clock w1 (i + 6)\<rparr>)"
    using ok parse
    by (simp add: refreshToken_def GetUserById_def GenerateTokenPair_result same)
  show ?thesis
    using missing found by auto
qed

theorem refreshToken_reissues_from_the_user_store_witness:
  "jwt_ValidateRefreshToken sample_world sample_refresh_token
     = (Inr (sample_claims\<lparr>TokenClaims.TokenType := ''refresh'',
                            TokenClaims.ExpiresAt := Some (86460 * Second)\<rparr>),
        sample_world\<lparr>clock := ticking_clock 1001\<rparr>)
   \<and> refreshToken sample_uuid_Parse empty_store sample_world
         (JSONBody (Some sample_refresh_token) []) =
       (Response StatusUnauthorized (H_error ''user not found''),
        sample_world\<lparr>clock := ticking_clock 1001\<rparr>)
   \<and> (\<exists>a b w2.
         refreshToken sample_uuid_Parse sample_store sample_world
             (JSONBody (Some sample_refresh_token) []) =
           (Response StatusOK (LoginBody
              \<lparr>LoginResponse.User =
                 \<lparr>UserResponse.Id = ''7c9e6679-7425-40de-944b-e07fc1f90ae7'',
                  UserResponse.Subject = ''test@example.com'',
                  UserResponse.Roles = [''auditor''], UserResponse.Permissions = []\<rparr>,
               AccessToken = Signed SigningMethodHMAC ''test-secret'' a,
               RefreshToken = Signed SigningMethodHMAC ''test-secret'' b,
               ExpiresAt = 86400000001001, RefreshExpiresAt = 86460000001002\<rparr>), w2)
         \<and> TokenClaims.Roles a = [''auditor''] \<and> TokenClaims.Roles b = [''auditor'']
         \<and> TokenClaims.Permissions a = [] \<and> TokenClaims.Permissions b = [])"
proof -
  have parse: "sample_uuid_Parse (UserId (sample_claims\<lparr>TokenClaims.TokenType := ''refresh'',
                            TokenClaims.ExpiresAt := Some (86460 * Second)\<rparr>)) = Some alice"
    by (simp add: sample_uuid_Parse_def sample_claims_def)
  have none: "empty_store alice = None"
    by (simp add: empty_store_def)
  have some: "sample_store alice =
                Some \<lparr>User.Id = alice, User.Subject = ''test@example.com'',
                      User.Roles = [''auditor''], User.Permissions = []\<rparr>"
    by (simp add: sample_store_def)
  from refreshToken_reissues_from_the_user_store
         [where uuid_Parse = sample_uuid_Parse and store = empty_store and h = "[]",
          OF sample_refresh_token_accepted parse] none
  have first: "refreshToken sample_uuid_Parse empty_store sample_world
         (JSONBody (Some sample_refresh_token) []) =
       (Response StatusUnauthorized (H_error ''user not found''),
        sample_world\<lparr>clock := ticking_clock 1001\<rparr>)"
    by simp
  from refreshToken_reissues_from_the_user_store
         [where uuid_Parse = sample_uuid_Parse and store = sample_store and h = "[]"
            and user = "\<lparr>User.Id = alice, User.Subject = ''test@example.com'',
                          User.Roles = [''auditor''], User.Permissions = []\<rparr>",
          OF sample_refresh_token_accepted parse] some
  have second: "\<exists>a b w2.
         refreshToken sample_uuid_Parse sample_store sample_world
             (JSONBody (Some sample_refresh_token) []) =
           (Response StatusOK (LoginBody
              \<lparr>LoginResponse.User =
                 \<lparr>UserResponse.Id = ''7c9e6679-7425-40de-944b-e07fc1f90ae7'',
                  UserResponse.Subject = ''test@example.com'',
                  UserResponse.Roles = [''auditor''], UserResponse.Permissions = []\<rparr>,
               AccessToken = Signed SigningMethodHMAC ''test-secret'' a,
               RefreshToken = Signed SigningMethodHMAC ''test-secret'' b,
               ExpiresAt = 86400000001001, RefreshExpiresAt = 86460000001002\<rparr>), w2)
         \<and> TokenClaims.Roles a = [''auditor''] \<and> TokenClaims.Roles b = [''auditor'']
         \<and> TokenClaims.Permissions a = [] \<and> TokenClaims.Permissions b = []"
    by (simp add: toUserResponse_def alice_def sample_world_def ticking_clock_at Minute_def
          Second_def REFRESH_TOKEN_EXTRA_TIME_def) blast
  from first second sample_refresh_token_accepted show ?thesis by blast
qed

text \<open>
  Claim C3 as worded has the new pair carry the roles and permissions of the presented
  claims, with no read of the user store.  The presented token names the role
  \<^verbatim>\<open>admin\<close> and the permission \<^verbatim>\<open>read:users\<close>; the store has alice as \<^verbatim>\<open>auditor\<close>
  without permissions, and that is what the new access token carries.  With an empty
  store the same request is answered 401.
\<close>

theorem refreshToken_ignores_the_roles_in_the_claims:
  "fst (refreshToken sample_uuid_Parse sample_store sample_world
          (JSONBody (Some sample_refresh_token) [])) =
     Response StatusOK (LoginBody
        \<lparr>LoginResponse.User =
           \<lparr>UserResponse.Id = ''7c9e6679-7425-40de-944b-e07fc1f90ae7'',
            UserResponse.Subject = ''test@example.com'',
            UserResponse.Roles = [''auditor''], UserResponse.Permissions = []\<rparr>,
         AccessToken = refreshed_access_token, RefreshToken = refreshed_refresh_token,
         ExpiresAt = 86400000001001, RefreshExpiresAt = 86460000001002\<rparr>)
   \<and> map_option TokenClaims.Roles (jwt_ParseUnverified sample_refresh_token) = Some [''admin'']
   \<and> map_option TokenClaims.Roles (jwt_ParseUnverified refreshed_access_token) = Some [''auditor'']
   \<and> map_option TokenClaims.Permissions (jwt_ParseUnverified sample_refresh_token)
        = Some [''read:users'']
   \<and> map_option TokenClaims.Permissions (jwt_ParseUnverified refreshed_access_token) = Some []
   \<and> fst (refreshToken sample_uuid_Parse empty_store sample_world
             (JSONBody (Some sample_refresh_token) [])) =
       Response StatusUnauthorized (H_error ''user not found'')"
proof -
  have presented:
    "map_option TokenClaims.Roles (jwt_ParseUnverified sample_refresh_token) = Some [''admin'']
     \<and> map_option TokenClaims.Permissions (jwt_ParseUnverified sample_refresh_token)
          = Some [''read:users'']"
    by (simp add: jwt_ParseUnverified_def sample_refresh_token_def sample_claims_def)
  have issued:
    "map_option TokenClaims.Roles (jwt_ParseUnverified refreshed_access_token) = Some [''auditor'']
     \<and> map_option TokenClaims.Permissions (jwt_ParseUnverified refreshed_access_token) = Some []"
    by (simp add: jwt_ParseUnverified_def refreshed_access_token_def sample_claims_def)
  show ?thesis
    using presented issued by (simp add: sample_refresh sample_refresh_without_user)
qed

section \<open>Validation\<close>




text \<open>
  Claim C7, as amended.  For a request whose body binds (well-formed JSON with a
  non-empty token), the validate endpoint answers a token that it rejects, by the codec
  or by the ledger, with HTTP 200, valid=false and a non-empty error string, and a token
  that it accepts and that carries an expiry with HTTP 200 and valid=true.  A request
  whose body does not bind (malformed JSON, token missing or empty) is answered HTTP 400.
\<close>

theorem ValidateToken_rejection_is_status_200:
  "(jwt_ValidateToken w t = (Inl err, w') \<longrightarrow>
      ValidateToken w (JSONBody (Some t) h) =
        (Response StatusOK (ValidateBody
           \<lparr>Valid = False, User = None, ValidateTokenResponse.ExpiresAt = None,
            Error = determineValidationError err\<rparr>), w')
      \<and> determineValidationError err \<noteq> [])
   \<and> (jwt_ValidateToken w t = (Inr claims, w') \<and> blacklisted w (TokenClaims.ID claims) \<longrightarrow>
      ValidateToken w (JSONBody (Some t) h) =
        (Response StatusOK (ValidateBody
           \<lparr>Valid = False, User = None, ValidateTokenResponse.ExpiresAt = None,
            Error = ''token revoked''\<rparr>), w'))
   \<and> (jwt_ValidateToken w t = (Inr claims, w') \<and> \<not> blacklisted w (TokenClaims.ID claims)
        \<and> TokenClaims.ExpiresAt claims = Some e \<longrightarrow>
      ValidateToken w (JSONBody (Some t) h) =
        (Response StatusOK (ValidateBody
           \<lparr>Valid = True,
            User = Some \<lparr>UserInfo.ID = UserId claims,
                         UserInfo.Subject = TokenClaims.Subject claims,
                         UserInfo.Roles = TokenClaims.Roles claims,
                         UserInfo.Permissions = TokenClaims.Permissions claims\<rparr>,
            ValidateTokenResponse.ExpiresAt = Some e, Error = []\<rparr>), w'))
   \<and> ValidateToken w (Undecodable msg) = (Response StatusBadRequest (H_error msg), w)
   \<and> ValidateToken w (JSONBody None h) =
        (Response StatusBadRequest
           (H_error (''Key: '' @ apostrophe @ ''ValidateTokenRequest.Token'' @ apostrophe
              @ '' Error:Field validation for '' @ apostrophe @ ''Token'' @ apostrophe
              @ '' failed on the 'required' tag'')), w)
   \<and> StatusOK = 200 \<and> StatusBadRequest = 400"
proof -
  have bad: "ValidateToken w (Undecodable msg) = (Response StatusBadRequest (H_error msg), w)"
    by (simp add: ValidateToken_def)
  have empty: "ValidateToken w (JSONBody None h) =
        (Response StatusBadRequest
           (H_error (''Key: '' @ apostrophe @ ''ValidateTokenRequest.Token'' @ apostrophe
              @ '' Error:Field validation for '' @ apostrophe @ ''Token'' @ apostrophe
              @ '' failed on the 'required' tag'')), w)"
    by (simp add: ValidateToken_def)
  have codes: "StatusOK = 200 \<and> StatusBadRequest = 400"
    by (simp add: StatusOK_def StatusBadRequest_def)
  show ?thesis
    using bad empty codes ValidateToken_rejected [of w t err w' h]
      ValidateToken_revoked [of w t claims w' h] ValidateToken_accepted [of w t claims w' e h]
      determineValidationError_nonempty [of err]
    by blast
qed

theorem ValidateToken_rejection_is_status_200_witness:
  "ValidateToken sample_world (JSONBody (Some tampered_token) []) =
     (Response 200 (ValidateBody
        \<lparr>Valid = False, User = None, ValidateTokenResponse.ExpiresAt = None,
         Error = ''invalid signature''\<rparr>), sample_world)
   \<and> ValidateToken revoked_world (JSONBody (Some sample_token) []) =
     (Response 200 (ValidateBody
        \<lparr>Valid = False, User = None, ValidateTokenResponse.ExpiresAt = None,
         Error = ''token revoked''\<rparr>), revoked_world\<lparr>clock := ticking_clock 1003\<rparr>)
   \<and> ValidateToken sample_world (JSONBody (Some sample_token) []) =
     (Response 200 (ValidateBody
        \<lparr>Valid = True,
         User = Some \<lparr>UserInfo.ID = ''7c9e6679-7425-40de-944b-e07fc1f90ae7'',
                      UserInfo.Subject = ''test@example.com'',
                      UserInfo.Roles = [''admin''],
                      UserInfo.Permissions = [''read:users'']\<rparr>,
         ValidateTokenResponse.ExpiresAt = Some (86400 * Second), Error = []\<rparr>),
      sample_world\<lparr>clock := ticking_clock 1001\<rparr>)"
proof -
  have one: "ValidateToken sample_world (JSONBody (Some tampered_token) []) =
     (Response 200 (ValidateBody
        \<lparr>Valid = False, User = None, ValidateTokenResponse.ExpiresAt = None,
         Error = ''invalid signature''\<rparr>), sample_world)"
    using ValidateToken_rejection_is_status_200
            [where w = sample_world and t = tampered_token and w' = sample_world
               and err = "''token signature is invalid: signature is invalid''"]
          tampered_token_rejected
    by (simp add: determine_signature)
  have two: "ValidateToken revoked_world (JSONBody (Some sample_token) []) =
     (Response 200 (ValidateBody
        \<lparr>Valid = False, User = None, ValidateTokenResponse.ExpiresAt = None,
         Error = ''token revoked''\<rparr>), revoked_world\<lparr>clock := ticking_clock 1003\<rparr>)"
    using ValidateToken_rejection_is_status_200
            [where w = revoked_world and t = sample_token and claims = sample_claims
               and w' = "revoked_world\<lparr>clock := ticking_clock 1003\<rparr>"]
          sample_token_accepted_revoked_world revoked_world_blacklisted
    by (simp add: sample_claims_def)
  have three: "ValidateToken sample_world (JSONBody (Some sample_token) []) =
     (Response 200 (ValidateBody
        \<lparr>Valid = True,
         User = Some \<lparr>UserInfo.ID = ''7c9e6679-7425-40de-944b-e07fc1f90ae7'',
                      UserInfo.Subject = ''test@example.com'',
                      UserInfo.Roles = [''admin''],
                      UserInfo.Permissions = [''read:users'']\<rparr>,
         ValidateTokenResponse.ExpiresAt = Some (86400 * Second), Error = []\<rparr>),
      sample_world\<lparr>clock := ticking_clock 1001\<rparr>)"
    using ValidateToken_rejection_is_status_200
            [where w = sample_world and t = sample_token and claims = sample_claims
               and w' = "sample_world\<lparr>clock := ticking_clock 1001\<rparr>"
               and e = "86400 * Second"]
          sample_token_accepted sample_world_not_blacklisted
    by (simp add: sample_claims_def)
  from one two three show ?thesis by blast
qed

text \<open>
  Claim C7 as worded has every request answered HTTP 200.  A request whose token is the
  empty string is answered HTTP 400.
\<close>

theorem ValidateToken_empty_token_is_status_400:
  "ValidateToken sample_world (JSONBody None []) =
     (Response 400
        (H_error (''Key: '' @ apostrophe @ ''ValidateTokenRequest.Token'' @ apostrophe
           @ '' Error:Field validation for '' @ apostrophe @ ''Token'' @ apostrophe
           @ '' failed on the 'required' tag'')), sample_world)"
  by (simp add: ValidateToken_def StatusBadRequest_def)

section \<open>Introspection\<close>

text \<open>
  Claim C8: for every input that introspection finds inactive (rejected by the codec as
  malformed, expired or badly signed, or revoked on the ledger), the endpoint answers
  HTTP 200 with a response that serialises to the single key \<^verbatim>\<open>active\<close> with value
  false; and every introspection response with active=false is of that form.
\<close>

theorem IntrospectToken_inactive_has_one_key:
  "((jwt_ValidateToken w t = (Inl err, w'))
      \<or> (jwt_ValidateToken w t = (Inr claims, w') \<and> blacklisted w (TokenClaims.ID claims))
    \<longrightarrow> IntrospectToken w (JSONBody (Some t) h) = (Response StatusOK (IntrospectBody inactive), w'))
   \<and> marshal_IntrospectTokenResponse inactive = [(''active'', JBool False)]
   \<and> (IntrospectToken w req = (Response s (IntrospectBody r), w'') \<and> \<not> Active r \<longrightarrow>
        s = StatusOK \<and> marshal_IntrospectTokenResponse r = [(''active'', JBool False)])
   \<and> StatusOK = 200"
proof -
  have a: "(jwt_ValidateToken w t = (Inl err, w'))
      \<or> (jwt_ValidateToken w t = (Inr claims, w') \<and> blacklisted w (TokenClaims.ID claims))
    \<longrightarrow> IntrospectToken w (JSONBody (Some t) h) = (Response StatusOK (IntrospectBody inactive), w')"
    by (auto simp: IntrospectToken_rejected IntrospectToken_revoked)
  have b: "IntrospectToken w req = (Response s (IntrospectBody r), w'') \<and> \<not> Active r \<longrightarrow>
        s = StatusOK \<and> r = inactive"
    by (auto simp: IntrospectToken_def Let_def
          split: sum.splits prod.splits option.splits if_splits)
  from a b show ?thesis by (auto simp: marshal_inactive StatusOK_def)
qed

theorem IntrospectToken_inactive_has_one_key_witness:
  "IntrospectToken sample_world (JSONBody (Some malformed_token) []) =
     (Response 200 (IntrospectBody inactive), sample_world)
   \<and> IntrospectToken sample_world (JSONBody (Some tampered_token) []) =
     (Response 200 (IntrospectBody inactive), sample_world)
   \<and> IntrospectToken sample_world (JSONBody (Some expired_token) []) =
     (Response 200 (IntrospectBody inactive), sample_world\<lparr>clock := ticking_clock 1001\<rparr>)
   \<and> IntrospectToken revoked_world (JSONBody (Some sample_token) []) =
     (Response 200 (IntrospectBody inactive), revoked_world\<lparr>clock := ticking_clock 1003\<rparr>)
   \<and> marshal_IntrospectTokenResponse inactive = [(''active'', JBool False)]"
proof -
  have one: "IntrospectToken sample_world (JSONBody (Some malformed_token) []) =
     (Response 200 (IntrospectBody inactive), sample_world)"
    using IntrospectToken_inactive_has_one_key
            [where w = sample_world and t = malformed_token and w' = sample_world
               and err = "''token is malformed: token contains an invalid number of segments''"]
          malformed_token_rejected
    by simp
  have two: "IntrospectToken sample_world (JSONBody (Some tampered_token) []) =
     (Response 200 (IntrospectBody inactive), sample_world)"
    using IntrospectToken_inactive_has_one_key
            [where w = sample_world and t = tampered_token and w' = sample_world
               and err = "''token signature is invalid: signature is invalid''"]
          tampered_token_rejected
    by simp
  have three: "IntrospectToken sample_world (JSONBody (Some expired_token) []) =
     (Response 200 (IntrospectBody inactive), sample_world\<lparr>clock := ticking_clock 1001\<rparr>)"
    using IntrospectToken_inactive_has_one_key
            [where w = sample_world and t = expired_token
               and w' = "sample_world\<lparr>clock := ticking_clock 1001\<rparr>"
               and err = "''token has invalid claims: token is expired''"]
          expired_token_rejected
    by simp
  have four: "IntrospectToken revoked_world (JSONBody (Some sample_token) []) =
     (Response 200 (IntrospectBody inactive), revoked_world\<lparr>clock := ticking_clock 1003\<rparr>)"
    using IntrospectToken_inactive_has_one_key
            [where w = revoked_world and t = sample_token and claims = sample_claims
               and w' = "revoked_world\<lparr>clock := ticking_clock 1003\<rparr>"]
          sample_token_accepted_revoked_world revoked_world_blacklisted
    by (simp add: sample_claims_def)
  have five: "marshal_IntrospectTokenResponse inactive = [(''active'', JBool False)]"
    using IntrospectToken_inactive_has_one_key [where w = sample_world] by blast
  from one two three four five show ?thesis by blast
qed

text \<open>
  Claim C9, as amended.  In the introspection response of an active token the scope is
  each non-empty role of the claims prefixed with \<^verbatim>\<open>role:\<close>, followed by each non-empty
  permission, joined by single spaces in that order; roles and permissions that are the
  empty string are skipped.  When roles and permissions are both empty the scope is the
  empty string.
\<close>

theorem IntrospectToken_scope:
  assumes "IntrospectToken w (JSONBody (Some t) h) = (Response s (IntrospectBody r), w')"
      and "Active r"
  shows "\<exists>claims. fst (jwt_ValidateToken w t) = Inr claims
           \<and> IntrospectTokenResponse.Roles r = TokenClaims.Roles claims
           \<and> IntrospectTokenResponse.Permissions r = TokenClaims.Permissions claims
           \<and> Scope r = scope_as_described
                          (filter (\<lambda>role. role \<noteq> []) (TokenClaims.Roles claims))
                          (filter (\<lambda>p. p \<noteq> []) (TokenClaims.Permissions claims))
           \<and> (TokenClaims.Roles claims = [] \<and> TokenClaims.Permissions claims = []
                \<longrightarrow> Scope r = [])"
  using assms
  by (auto simp: IntrospectToken_def Let_def inactive_def buildScopeString_eq
        scope_as_described_def
        split: sum.splits prod.splits option.splits if_splits)

theorem IntrospectToken_scope_witness:
  "IntrospectToken sample_world (JSONBody (Some sample_token) []) =
     (Response StatusOK (IntrospectBody
        \<lparr>Active = True, Scope = ''role:admin read:users'',
         ClientId = ''aegis-default-client'', Username = ''test@example.com'',
         IntrospectTokenResponse.TokenType = ''Bearer'', Exp = 86400, Iat = 0,
         Sub = ''7c9e6679-7425-40de-944b-e07fc1f90ae7'', Iss = ''aegis'',
         IntrospectTokenResponse.Roles = [''admin''],
         IntrospectTokenResponse.Permissions = [''read:users'']\<rparr>),
      sample_world\<lparr>clock := ticking_clock 1001\<rparr>)
   \<and> (\<exists>claims. fst (jwt_ValidateToken sample_world sample_token) = Inr claims
         \<and> ''role:admin read:users'' = scope_as_described
              (filter (\<lambda>role. role \<noteq> []) (TokenClaims.Roles claims))
              (filter (\<lambda>p. p \<noteq> []) (TokenClaims.Permissions claims)))"
proof -
  have run: "IntrospectToken sample_world (JSONBody (Some sample_token) []) =
     (Response StatusOK (IntrospectBody
        \<lparr>Active = True, Scope = ''role:admin read:users'',
         ClientId = ''aegis-default-client'', Username = ''test@example.com'',
         IntrospectTokenResponse.TokenType = ''Bearer'', Exp = 86400, Iat = 0,
         Sub = ''7c9e6679-7425-40de-944b-e07fc1f90ae7'', Iss = ''aegis'',
         IntrospectTokenResponse.Roles = [''admin''],
         IntrospectTokenResponse.Permissions = [''read:users'']\<rparr>),
      sample_world\<lparr>clock := ticking_clock 1001\<rparr>)"
    using IntrospectToken_accepted [OF sample_token_accepted sample_world_not_blacklisted,
            of "86400 * Second" 0 "[]"]
    by (simp add: sample_claims_def sample_scope Unix_def Second_def)
  from IntrospectToken_scope [OF run] run show ?thesis by auto
qed

text \<open>
  Claim C9 as worded prefixes every role.  For an active token whose only role is the
  empty string the scope is \<^verbatim>\<open>read:users\<close>, where the wording gives
  \<^verbatim>\<open>role: read:users\<close>.
\<close>

theorem IntrospectToken_scope_skips_blank_role:
  "IntrospectToken sample_world (JSONBody (Some blank_role_token) []) =
     (Response StatusOK (IntrospectBody
        \<lparr>Active = True, Scope = ''read:users'',
         ClientId = ''aegis-default-client'', Username = ''test@example.com'',
         IntrospectTokenResponse.TokenType = ''Bearer'', Exp = 86400, Iat = 0,
         Sub = ''7c9e6679-7425-40de-944b-e07fc1f90ae7'', Iss = ''aegis'',
         IntrospectTokenResponse.Roles = [[]],
         IntrospectTokenResponse.Permissions = [''read:users'']\<rparr>),
      sample_world\<lparr>clock := ticking_clock 1001\<rparr>)
   \<and> scope_as_described [[]] [''read:users''] = ''role: read:users''"
  by (simp add: IntrospectToken_def sample_defs blank_role_token_def jwt_eval blacklisted_def
        IsBlacklisted_def NewMemoryBlacklist_def buildScopeString_def scope_as_described_def
        Unix_def)

end
